theory Spec2Isabelle
  imports Complex_Main
begin

section \<open>Tracks, the project and the command context\<close>

text \<open>
  \<^verbatim>\<open>SetTrackInfoCommand::Apply\<close> works on objects it reaches through pointers: the
  project's track list holds \<^verbatim>\<open>Track *\<close>, the located track is mutated through such
  a pointer and the track panel remembers one as the focused track. A pointer is
  an address, the objects live in a store from addresses to track objects, and the
  track list is the list of addresses in list order.

  Modelled from the spec: the classes \<^verbatim>\<open>Track\<close>, \<^verbatim>\<open>PlayableTrack\<close>, \<^verbatim>\<open>WaveTrack\<close>,
  \<^verbatim>\<open>TrackPanel\<close>, \<^verbatim>\<open>AudacityProject\<close> and \<^verbatim>\<open>CommandContext\<close> are only used by the
  source, their declarations are in headers that are not part of it. A track object
  carries the properties the command mutates (name, pan, gain, selection, solo,
  mute) and the outcome of the two runtime type checks: \<open>isWaveTrack\<close> says whether
  \<^verbatim>\<open>dynamic_cast<WaveTrack *>\<close> yields a non-null pointer, \<open>isPlayableTrack\<close> the same
  for \<^verbatim>\<open>dynamic_cast<PlayableTrack *>\<close>. Pan and gain are carried as real numbers:
  the command only passes them on, it computes nothing with them.
\<close>

type_synonym track_ptr = nat

record Track =
  trkName :: string
  trkSelected :: bool
  trkPan :: real
  trkGain :: real
  trkSolo :: bool
  trkMute :: bool
  isWaveTrack :: bool
  isPlayableTrack :: bool

record AudacityProject =
  tracks :: "track_ptr list"
  heap :: "track_ptr \<Rightarrow> Track"
  focusedTrack :: "track_ptr option"

text \<open>
  Every setter the command can call, with the receiver and the argument of the call.
  The context keeps the sequence of calls made so far next to the project and the
  reported errors, so that "the setter is called" is a statement about a value.
\<close>

datatype setter_call =
    Call_SetName track_ptr string
  | Call_SetPan track_ptr real
  | Call_SetGain track_ptr real
  | Call_SetSelected track_ptr bool
  | Call_SetFocusedTrack track_ptr
  | Call_SetSolo track_ptr bool
  | Call_SetMute track_ptr bool

record CommandContext =
  project :: AudacityProject
  errors :: "string list"
  calls :: "setter_call list"

definition CommandContext_Error :: "string \<Rightarrow> CommandContext \<Rightarrow> CommandContext" where
  "CommandContext_Error msg c = c\<lparr>errors := errors c @ [msg]\<rparr>"

definition Track_modify ::
  "track_ptr \<Rightarrow> (Track \<Rightarrow> Track) \<Rightarrow> setter_call \<Rightarrow> CommandContext \<Rightarrow> CommandContext" where
  "Track_modify t f e c =
     c\<lparr>project := (project c)\<lparr>heap := (heap (project c))(t := f (heap (project c) t))\<rparr>,
       calls := calls c @ [e]\<rparr>"

text \<open>
  Modelled from the spec: the bodies of the setters are not in the source. Each one
  assigns the property it is named after, on the object it is called on;
  \<^verbatim>\<open>TrackPanel::SetFocusedTrack\<close> records the track as the focused one.
\<close>

definition SetName :: "track_ptr \<Rightarrow> string \<Rightarrow> CommandContext \<Rightarrow> CommandContext" where
  "SetName t n = Track_modify t (\<lambda>x. x\<lparr>trkName := n\<rparr>) (Call_SetName t n)"

definition SetPan :: "track_ptr \<Rightarrow> real \<Rightarrow> CommandContext \<Rightarrow> CommandContext" where
  "SetPan t v = Track_modify t (\<lambda>x. x\<lparr>trkPan := v\<rparr>) (Call_SetPan t v)"

definition SetGain :: "track_ptr \<Rightarrow> real \<Rightarrow> CommandContext \<Rightarrow> CommandContext" where
  "SetGain t v = Track_modify t (\<lambda>x. x\<lparr>trkGain := v\<rparr>) (Call_SetGain t v)"

definition SetSelected :: "track_ptr \<Rightarrow> bool \<Rightarrow> CommandContext \<Rightarrow> CommandContext" where
  "SetSelected t b = Track_modify t (\<lambda>x. x\<lparr>trkSelected := b\<rparr>) (Call_SetSelected t b)"

definition SetSolo :: "track_ptr \<Rightarrow> bool \<Rightarrow> CommandContext \<Rightarrow> CommandContext" where
  "SetSolo t b = Track_modify t (\<lambda>x. x\<lparr>trkSolo := b\<rparr>) (Call_SetSolo t b)"

definition SetMute :: "track_ptr \<Rightarrow> bool \<Rightarrow> CommandContext \<Rightarrow> CommandContext" where
  "SetMute t b = Track_modify t (\<lambda>x. x\<lparr>trkMute := b\<rparr>) (Call_SetMute t b)"

definition SetFocusedTrack :: "track_ptr \<Rightarrow> CommandContext \<Rightarrow> CommandContext" where
  "SetFocusedTrack t c =
     c\<lparr>project := (project c)\<lparr>focusedTrack := Some t\<rparr>,
       calls := calls c @ [Call_SetFocusedTrack t]\<rparr>"

text \<open>
  Modelled from the spec: \<^verbatim>\<open>TrackListIterator\<close> is declared outside the source. It walks
  the track list in list order: \<^verbatim>\<open>First\<close> yields the first track and \<^verbatim>\<open>Next\<close> the one
  after the current track, each a null pointer (\<open>None\<close>) when there is none. The
  iterator's state is the part of the list that lies after the current track.
\<close>

definition TrackListIterator_First :: "track_ptr list \<Rightarrow> track_ptr option \<times> track_ptr list" where
  "TrackListIterator_First l = (case l of [] \<Rightarrow> (None, []) | a # rest \<Rightarrow> (Some a, rest))"

definition TrackListIterator_Next :: "track_ptr list \<Rightarrow> track_ptr option \<times> track_ptr list" where
  "TrackListIterator_Next iter = (case iter of [] \<Rightarrow> (None, []) | a # rest \<Rightarrow> (Some a, rest))"

section \<open>SetTrackInfoCommand\<close>

record SetTrackInfoCommand =
  mTrackIndex :: int
  mTrackName :: string
  mPan :: real
  mGain :: real
  bSelected :: bool
  bFocused :: bool
  bSolo :: bool
  bMute :: bool
  bHasTrackName :: bool
  bHasPan :: bool
  bHasGain :: bool
  bHasSelected :: bool
  bHasFocused :: bool
  bHasSolo :: bool
  bHasMute :: bool

text \<open>
  The loop of \<^verbatim>\<open>Apply\<close>:
  \<^verbatim>\<open>while (t && i != mTrackIndex) { t = iter.Next(); ++i; }\<close>
  The counter \<^verbatim>\<open>i\<close> is a \<^verbatim>\<open>long\<close> that starts at 0 and is incremented once per track
  visited, so it never exceeds the number of tracks plus one and is modelled as an
  integer without wrap-around.
\<close>

function Apply_loop ::
  "int \<Rightarrow> track_ptr option \<Rightarrow> track_ptr list \<Rightarrow> int \<Rightarrow> track_ptr option \<times> int" where
  "Apply_loop idx t iter i =
     (if t \<noteq> None \<and> i \<noteq> idx
      then (case TrackListIterator_Next iter of
              (t', iter') \<Rightarrow> Apply_loop idx t' iter' (i + 1))
      else (t, i))"
  by pat_completeness auto
termination
  by (relation "measure (\<lambda>(idx, t, iter, i). (if t = None then 0 else 1) + length iter)")
     (auto simp: TrackListIterator_Next_def split: list.splits)

declare Apply_loop.simps [simp del]

text \<open>
  \<^verbatim>\<open>Apply\<close> fails when \<^verbatim>\<open>i != mTrackIndex || !t\<close>: the pointer is null, or it is not and
  the counter differs from the index.

  The second half of \<^verbatim>\<open>Apply\<close> (from the two \<^verbatim>\<open>dynamic_cast\<close>s to the last setter),
  for the located track \<open>t\<close>. Both casts are evaluated before the first setter runs.
\<close>

definition Apply_fields :: "SetTrackInfoCommand \<Rightarrow> track_ptr \<Rightarrow> CommandContext \<Rightarrow> CommandContext" where
  "Apply_fields cmd t ctx =
     (let wt = isWaveTrack (heap (project ctx) t);
          pt = isPlayableTrack (heap (project ctx) t);
          c1 = (if bHasTrackName cmd then SetName t (mTrackName cmd) ctx else ctx);
          c2 = (if wt \<and> bHasPan cmd then SetPan t (mPan cmd) c1 else c1);
          c3 = (if wt \<and> bHasGain cmd then SetGain t (mGain cmd) c2 else c2);
          c4 = (if bHasSelected cmd then SetSelected t (bSelected cmd) c3 else c3);
          c5 = (if bHasFocused cmd then SetFocusedTrack t c4 else c4);
          c6 = (if pt \<and> bHasSolo cmd then SetSolo t (bSolo cmd) c5 else c5);
          c7 = (if pt \<and> bHasMute cmd then SetMute t (bMute cmd) c6 else c6)
      in c7)"

definition Apply :: "SetTrackInfoCommand \<Rightarrow> CommandContext \<Rightarrow> bool \<times> CommandContext" where
  "Apply cmd ctx =
     (case TrackListIterator_First (tracks (project ctx)) of
        (t0, iter) \<Rightarrow>
          (case Apply_loop (mTrackIndex cmd) t0 iter 0 of
             (None, i) \<Rightarrow> (False, CommandContext_Error ''TrackIndex was invalid.'' ctx)
           | (Some t, i) \<Rightarrow>
               if i \<noteq> mTrackIndex cmd
               then (False, CommandContext_Error ''TrackIndex was invalid.'' ctx)
               else (True, Apply_fields cmd t ctx)))"

text \<open>
  The setter calls one run of \<^verbatim>\<open>Apply\<close> makes: what it appends to the context's
  sequence of calls.
\<close>

definition Apply_calls :: "SetTrackInfoCommand \<Rightarrow> CommandContext \<Rightarrow> setter_call list" where
  "Apply_calls cmd ctx = drop (length (calls ctx)) (calls (snd (Apply cmd ctx)))"

text \<open>
  The constructor assigns eight members and no other. What the remaining members
  hold afterwards is what the object's storage held before: the constructor is a
  function of that storage.
\<close>

definition SetTrackInfoCommand_ctor :: "SetTrackInfoCommand \<Rightarrow> SetTrackInfoCommand" where
  "SetTrackInfoCommand_ctor raw =
     raw\<lparr>mTrackIndex := 0, mTrackName := ''unnamed'', mPan := 0, mGain := 1,
         bSelected := False, bFocused := False, bSolo := False, bMute := False\<rparr>"

subsection \<open>DefineParams\<close>

text \<open>
  Modelled from the spec: \<^verbatim>\<open>ShuttleParams\<close> belongs to the host's automation framework
  and is not in the source. \<^verbatim>\<open>DefineParams\<close> describes the parameters to it, one
  \<^verbatim>\<open>Define\<close> call per parameter, each but the first after \<^verbatim>\<open>Optional\<close> with the
  presence flag. The shuttle is the sequence of definitions it has been given: the
  member bound, the presence flag if there is one, the name, the default and the
  range (minimum, maximum) where the call gives one.
\<close>

datatype param_value = PInt int | PString string | PDouble real | PBool bool

datatype command_member =
  M_mTrackIndex | M_mTrackName | M_mPan | M_mGain | M_bSelected | M_bFocused | M_bSolo | M_bMute

datatype command_flag =
  M_bHasTrackName | M_bHasPan | M_bHasGain | M_bHasSelected | M_bHasFocused | M_bHasSolo
  | M_bHasMute

record ParamDefinition =
  pOptional :: "command_flag option"
  pMember :: command_member
  pKey :: string
  pDefault :: param_value
  pRange :: "(param_value \<times> param_value) option"

definition ShuttleParams_Define ::
  "command_flag option \<Rightarrow> command_member \<Rightarrow> string \<Rightarrow> param_value \<Rightarrow>
   (param_value \<times> param_value) option \<Rightarrow> ParamDefinition list \<Rightarrow> ParamDefinition list" where
  "ShuttleParams_Define flag member k d r S =
     S @ [\<lparr>pOptional = flag, pMember = member, pKey = k, pDefault = d, pRange = r\<rparr>]"

definition DefineParams :: "ParamDefinition list \<Rightarrow> bool \<times> ParamDefinition list" where
  "DefineParams S =
     (let S1 = ShuttleParams_Define None M_mTrackIndex ''TrackIndex''
                 (PInt 0) (Some (PInt 0, PInt 100)) S;
          S2 = ShuttleParams_Define (Some M_bHasTrackName) M_mTrackName ''Name''
                 (PString ''Unnamed'') None S1;
          S3 = ShuttleParams_Define (Some M_bHasPan) M_mPan ''Pan''
                 (PDouble 0) (Some (PDouble (- 1), PDouble 1)) S2;
          S4 = ShuttleParams_Define (Some M_bHasGain) M_mGain ''Gain''
                 (PDouble 1) (Some (PDouble 0, PDouble 10)) S3;
          S5 = ShuttleParams_Define (Some M_bHasSelected) M_bSelected ''Selected''
                 (PBool False) None S4;
          S6 = ShuttleParams_Define (Some M_bHasFocused) M_bFocused ''Focuseed''
                 (PBool False) None S5;
          S7 = ShuttleParams_Define (Some M_bHasSolo) M_bSolo ''Solo''
                 (PBool False) None S6;
          S8 = ShuttleParams_Define (Some M_bHasMute) M_bMute ''Mute''
                 (PBool False) None S7
      in (True, S8))"

section \<open>MemoryX.h\<close>

subsection \<open>IteratorRange\<close>

text \<open>
  An \<^verbatim>\<open>IteratorRange\<close> is a pair of iterators \<^verbatim>\<open>(first, second)\<close> that delimit the
  elements from \<^verbatim>\<open>first\<close> up to, not including, \<^verbatim>\<open>second\<close>. The range is modelled by
  the list of these elements, and an iterator into it by the number of increments
  that lead to it from \<^verbatim>\<open>first\<close>: \<^verbatim>\<open>begin()\<close> is 0 and \<^verbatim>\<open>end()\<close> is the length.

  \<^verbatim>\<open>std::find\<close> and \<^verbatim>\<open>std::distance\<close> are the C++ standard library's. \<^verbatim>\<open>std::find\<close> is
  the loop \<^verbatim>\<open>for (; first != last; ++first) if (*first == value) return first; return last;\<close>
  and \<^verbatim>\<open>std::distance(a, b)\<close> the number of increments from \<^verbatim>\<open>a\<close> to \<^verbatim>\<open>b\<close>. The
  result of \<^verbatim>\<open>index\<close> is a \<^verbatim>\<open>long\<close>; offsets are taken to fit into it, which holds for
  every range shorter than \<open>2 ^ 31\<close> elements.
\<close>

type_synonym 'a IteratorRange = "'a list"

definition IteratorRange_begin :: "'a IteratorRange \<Rightarrow> nat" where
  "IteratorRange_begin r = 0"

definition IteratorRange_end :: "'a IteratorRange \<Rightarrow> nat" where
  "IteratorRange_end r = length r"

primrec std_find :: "'a list \<Rightarrow> 'a \<Rightarrow> nat" where
  "std_find [] t = 0"
| "std_find (x # xs) t = (if x = t then 0 else Suc (std_find xs t))"

definition std_distance :: "nat \<Rightarrow> nat \<Rightarrow> int" where
  "std_distance a b = int b - int a"

definition IteratorRange_find :: "'a IteratorRange \<Rightarrow> 'a \<Rightarrow> nat" where
  "IteratorRange_find r t = std_find r t"

definition IteratorRange_index :: "'a IteratorRange \<Rightarrow> 'a \<Rightarrow> int" where
  "IteratorRange_index r t =
     (let iter = IteratorRange_find r t
      in if iter = IteratorRange_end r then - 1
         else std_distance (IteratorRange_begin r) iter)"

definition IteratorRange_contains :: "'a IteratorRange \<Rightarrow> 'a \<Rightarrow> bool" where
  "IteratorRange_contains r t = (IteratorRange_end r \<noteq> IteratorRange_find r t)"

subsection \<open>Maybe\<close>

text \<open>
  A \<^verbatim>\<open>Maybe<X>\<close> holds storage for one \<^verbatim>\<open>X\<close> and the pointer \<^verbatim>\<open>pp\<close>, which is null or
  points at the object built in the storage: \<open>pp = None\<close> is the null pointer and
  \<open>pp = Some x\<close> says that the object \<open>x\<close> lives in the storage. \<open>destroyed\<close> lists the
  objects on which \<^verbatim>\<open>~X()\<close> has run, oldest first.
\<close>

record 'x Maybe =
  pp :: "'x option"
  destroyed :: "'x list"

definition Maybe_ctor :: "'x Maybe" where
  "Maybe_ctor = \<lparr>pp = None, destroyed = []\<rparr>"

definition Maybe_get :: "'x Maybe \<Rightarrow> 'x option" where
  "Maybe_get m = pp m"

definition Maybe_bool :: "'x Maybe \<Rightarrow> bool" where
  "Maybe_bool m = (pp m \<noteq> None)"

definition Maybe_reset :: "'x Maybe \<Rightarrow> 'x Maybe" where
  "Maybe_reset m =
     (case pp m of
        Some x \<Rightarrow> m\<lparr>pp := None, destroyed := destroyed m @ [x]\<rparr>
      | None \<Rightarrow> m)"

definition Maybe_create :: "'x \<Rightarrow> 'x Maybe \<Rightarrow> 'x Maybe" where
  "Maybe_create x m = (Maybe_reset m)\<lparr>pp := Some x\<rparr>"

definition Maybe_dtor :: "'x Maybe \<Rightarrow> 'x Maybe" where
  "Maybe_dtor m = Maybe_reset m"

section \<open>Example objects\<close>

text \<open>
  A project of three tracks at the addresses 10, 20 and 30: a wave track, a label
  track (neither playable nor a wave track) and a note track (playable, not a
  wave track). The command addresses the track of index 0 and has every optional
  field present.
\<close>

definition demo_track :: "bool \<Rightarrow> bool \<Rightarrow> Track" where
  "demo_track w p =
     \<lparr>trkName = ''Audio Track'', trkSelected = False, trkPan = 0, trkGain = 1,
      trkSolo = False, trkMute = False, isWaveTrack = w, isPlayableTrack = p\<rparr>"

definition demo_project :: AudacityProject where
  "demo_project =
     \<lparr>tracks = [10, 20, 30],
      heap = (\<lambda>a. if a = 10 then demo_track True True
                   else if a = 30 then demo_track False True
                   else demo_track False False),
      focusedTrack = None\<rparr>"

definition demo_context :: CommandContext where
  "demo_context = \<lparr>project = demo_project, errors = [], calls = []\<rparr>"

definition demo_command :: "int \<Rightarrow> bool \<Rightarrow> SetTrackInfoCommand" where
  "demo_command idx present =
     \<lparr>mTrackIndex = idx, mTrackName = ''Lead'', mPan = 5, mGain = - 3,
      bSelected = True, bFocused = True, bSolo = True, bMute = True,
      bHasTrackName = present, bHasPan = present, bHasGain = present, bHasSelected = present,
      bHasFocused = present, bHasSolo = present, bHasMute = present\<rparr>"

text \<open>A project of 102 wave tracks, for an index beyond 100.\<close>

definition demo_long_context :: CommandContext where
  "demo_long_context =
     \<lparr>project = \<lparr>tracks = replicate 102 10, heap = (\<lambda>a. demo_track True True),
                  focusedTrack = None\<rparr>,
      errors = [], calls = []\<rparr>"

section \<open>The scan of the track list\<close>

lemma Apply_loop_None: "Apply_loop idx None iter i = (None, i)"
  by (simp add: Apply_loop.simps)

lemma Apply_loop_Some:
  "Apply_loop idx (Some a) iter i =
     (if i \<le> idx \<and> idx - i \<le> int (length iter)
      then (Some ((a # iter) ! nat (idx - i)), idx)
      else (None, i + 1 + int (length iter)))"
proof (induction iter arbitrary: a i)
  case Nil
  show ?case
    by (subst Apply_loop.simps) (auto simp: TrackListIterator_Next_def Apply_loop_None)
next
  case (Cons b rest)
  show ?case
  proof (cases "i = idx")
    case True
    then show ?thesis by (subst Apply_loop.simps) simp
  next
    case False
    have step: "Apply_loop idx (Some a) (b # rest) i = Apply_loop idx (Some b) rest (i + 1)"
      using False by (subst Apply_loop.simps) (simp add: TrackListIterator_Next_def)
    show ?thesis
    proof (cases "i < idx \<and> idx - i \<le> int (length rest) + 1")
      case True
      then have "nat (idx - i) = Suc (nat (idx - (i + 1)))" by linarith
      then show ?thesis using True False step Cons.IH [of b "i + 1"] by auto
    next
      case past: False
      then show ?thesis using False step Cons.IH [of b "i + 1"] by auto
    qed
  qed
qed

lemma Apply_locate:
  "(case TrackListIterator_First l of (t0, iter) \<Rightarrow> Apply_loop idx t0 iter 0) =
     (if 0 \<le> idx \<and> idx < int (length l) then (Some (l ! nat idx), idx)
      else (None, int (length l)))"
  by (cases l) (auto simp: TrackListIterator_First_def Apply_loop_None Apply_loop_Some)

lemma Apply_valid:
  "0 \<le> mTrackIndex cmd \<Longrightarrow> mTrackIndex cmd < int (length (tracks (project ctx))) \<Longrightarrow>
   Apply cmd ctx = (True, Apply_fields cmd (tracks (project ctx) ! nat (mTrackIndex cmd)) ctx)"
  using Apply_locate [where l = "tracks (project ctx)" and idx = "mTrackIndex cmd"]
  by (auto simp: Apply_def split: prod.splits option.splits)

lemma Apply_invalid:
  "\<not> (0 \<le> mTrackIndex cmd \<and> mTrackIndex cmd < int (length (tracks (project ctx)))) \<Longrightarrow>
   Apply cmd ctx = (False, CommandContext_Error ''TrackIndex was invalid.'' ctx)"
  using Apply_locate [where l = "tracks (project ctx)" and idx = "mTrackIndex cmd"]
  by (auto simp: Apply_def split: prod.splits option.splits)

section \<open>The effect of the setters\<close>

lemmas setter_defs = SetName_def SetPan_def SetGain_def SetSelected_def SetSolo_def SetMute_def
  SetFocusedTrack_def Track_modify_def

lemma Apply_fields_calls:
  "calls (Apply_fields cmd t ctx) = calls ctx @
     (if bHasTrackName cmd then [Call_SetName t (mTrackName cmd)] else []) @
     (if isWaveTrack (heap (project ctx) t) \<and> bHasPan cmd
      then [Call_SetPan t (mPan cmd)] else []) @
     (if isWaveTrack (heap (project ctx) t) \<and> bHasGain cmd
      then [Call_SetGain t (mGain cmd)] else []) @
     (if bHasSelected cmd then [Call_SetSelected t (bSelected cmd)] else []) @
     (if bHasFocused cmd then [Call_SetFocusedTrack t] else []) @
     (if isPlayableTrack (heap (project ctx) t) \<and> bHasSolo cmd
      then [Call_SetSolo t (bSolo cmd)] else []) @
     (if isPlayableTrack (heap (project ctx) t) \<and> bHasMute cmd
      then [Call_SetMute t (bMute cmd)] else [])"
  by (simp add: Apply_fields_def Let_def setter_defs)

lemma Apply_fields_heap:
  "trkName (heap (project (Apply_fields cmd t ctx)) a) =
     (if a = t \<and> bHasTrackName cmd then mTrackName cmd else trkName (heap (project ctx) a))"
  "trkPan (heap (project (Apply_fields cmd t ctx)) a) =
     (if a = t \<and> isWaveTrack (heap (project ctx) t) \<and> bHasPan cmd then mPan cmd
      else trkPan (heap (project ctx) a))"
  "trkGain (heap (project (Apply_fields cmd t ctx)) a) =
     (if a = t \<and> isWaveTrack (heap (project ctx) t) \<and> bHasGain cmd then mGain cmd
      else trkGain (heap (project ctx) a))"
  "trkSelected (heap (project (Apply_fields cmd t ctx)) a) =
     (if a = t \<and> bHasSelected cmd then bSelected cmd else trkSelected (heap (project ctx) a))"
  "trkSolo (heap (project (Apply_fields cmd t ctx)) a) =
     (if a = t \<and> isPlayableTrack (heap (project ctx) t) \<and> bHasSolo cmd then bSolo cmd
      else trkSolo (heap (project ctx) a))"
  "trkMute (heap (project (Apply_fields cmd t ctx)) a) =
     (if a = t \<and> isPlayableTrack (heap (project ctx) t) \<and> bHasMute cmd then bMute cmd
      else trkMute (heap (project ctx) a))"
  by (simp_all add: Apply_fields_def Let_def setter_defs)

lemma Apply_fields_rest:
  "tracks (project (Apply_fields cmd t ctx)) = tracks (project ctx)"
  "focusedTrack (project (Apply_fields cmd t ctx)) =
     (if bHasFocused cmd then Some t else focusedTrack (project ctx))"
  "errors (Apply_fields cmd t ctx) = errors ctx"
  by (simp_all add: Apply_fields_def Let_def setter_defs)

lemma Apply_calls_valid:
  assumes "0 \<le> mTrackIndex cmd" and "mTrackIndex cmd < int (length (tracks (project ctx)))"
    and "t = tracks (project ctx) ! nat (mTrackIndex cmd)"
  shows "Apply_calls cmd ctx =
     (if bHasTrackName cmd then [Call_SetName t (mTrackName cmd)] else []) @
     (if isWaveTrack (heap (project ctx) t) \<and> bHasPan cmd
      then [Call_SetPan t (mPan cmd)] else []) @
     (if isWaveTrack (heap (project ctx) t) \<and> bHasGain cmd
      then [Call_SetGain t (mGain cmd)] else []) @
     (if bHasSelected cmd then [Call_SetSelected t (bSelected cmd)] else []) @
     (if bHasFocused cmd then [Call_SetFocusedTrack t] else []) @
     (if isPlayableTrack (heap (project ctx) t) \<and> bHasSolo cmd
      then [Call_SetSolo t (bSolo cmd)] else []) @
     (if isPlayableTrack (heap (project ctx) t) \<and> bHasMute cmd
      then [Call_SetMute t (bMute cmd)] else [])"
  unfolding Apply_calls_def Apply_valid [OF assms(1,2)] assms(3) snd_conv Apply_fields_calls
  by simp

lemma Apply_calls_invalid:
  "\<not> (0 \<le> mTrackIndex cmd \<and> mTrackIndex cmd < int (length (tracks (project ctx)))) \<Longrightarrow>
   Apply_calls cmd ctx = []"
  by (simp add: Apply_calls_def Apply_invalid CommandContext_Error_def)

lemmas demo_defs = demo_track_def demo_project_def demo_context_def demo_command_def

section \<open>The claims about SetTrackInfoCommand\<close>

text \<open>
  C1. Whatever the track list and the configured index, \<^verbatim>\<open>Apply\<close> returns false and
  reports "TrackIndex was invalid." exactly when the index does not designate an
  existing track (it is negative, or not below the number of tracks), and returns
  true, reporting nothing, exactly when a track exists at the index.
\<close>

theorem Apply_fails_iff_index_invalid:
  "((\<not> fst (Apply cmd ctx) \<and>
       errors (snd (Apply cmd ctx)) = errors ctx @ [''TrackIndex was invalid.'']) =
      (\<not> (0 \<le> mTrackIndex cmd \<and> mTrackIndex cmd < int (length (tracks (project ctx))))))
   \<and> (fst (Apply cmd ctx) =
        (0 \<le> mTrackIndex cmd \<and> mTrackIndex cmd < int (length (tracks (project ctx)))))
   \<and> ((fst (Apply cmd ctx) \<and> errors (snd (Apply cmd ctx)) = errors ctx) =
        (0 \<le> mTrackIndex cmd \<and> mTrackIndex cmd < int (length (tracks (project ctx)))))"
proof (cases "0 \<le> mTrackIndex cmd \<and> mTrackIndex cmd < int (length (tracks (project ctx)))")
  case True
  then have "Apply cmd ctx =
      (True, Apply_fields cmd (tracks (project ctx) ! nat (mTrackIndex cmd)) ctx)"
    by (simp add: Apply_valid)
  then show ?thesis using True by (simp add: Apply_fields_rest)
next
  case False
  then have "Apply cmd ctx = (False, CommandContext_Error ''TrackIndex was invalid.'' ctx)"
    by (rule Apply_invalid)
  then show ?thesis using False by (simp add: CommandContext_Error_def)
qed

theorem Apply_fails_iff_index_invalid_witness:
  "\<not> fst (Apply (demo_command 3 True) demo_context)
   \<and> errors (snd (Apply (demo_command 3 True) demo_context)) = [''TrackIndex was invalid.'']
   \<and> \<not> fst (Apply (demo_command (- 1) True) demo_context)
   \<and> fst (Apply (demo_command 2 True) demo_context)"
  using Apply_fails_iff_index_invalid [of "demo_command 3 True" demo_context]
    Apply_fails_iff_index_invalid [of "demo_command (- 1) True" demo_context]
    Apply_fails_iff_index_invalid [of "demo_command 2 True" demo_context]
  by (simp add: demo_defs)

text \<open>
  C2. When a track exists at the configured index, \<^verbatim>\<open>Apply\<close> calls a setter exactly when
  its field is marked present and the located track supports it, on the located
  track and with the field's value: \<^verbatim>\<open>SetPan\<close> and \<^verbatim>\<open>SetGain\<close> only when the track casts
  to \<^verbatim>\<open>WaveTrack\<close>, \<^verbatim>\<open>SetSolo\<close> and \<^verbatim>\<open>SetMute\<close> only when it casts to \<^verbatim>\<open>PlayableTrack\<close>,
  \<^verbatim>\<open>SetName\<close>, \<^verbatim>\<open>SetSelected\<close> and \<^verbatim>\<open>SetFocusedTrack\<close> whatever the kind of the track.
\<close>

theorem Apply_sets_present_fields_on_supporting_tracks:
  assumes "0 \<le> mTrackIndex cmd" and "mTrackIndex cmd < int (length (tracks (project ctx)))"
    and "t = tracks (project ctx) ! nat (mTrackIndex cmd)"
  shows "(Call_SetName a n \<in> set (Apply_calls cmd ctx)) =
           (a = t \<and> n = mTrackName cmd \<and> bHasTrackName cmd)
       \<and> (Call_SetPan a v \<in> set (Apply_calls cmd ctx)) =
           (a = t \<and> v = mPan cmd \<and> bHasPan cmd \<and> isWaveTrack (heap (project ctx) t))
       \<and> (Call_SetGain a v \<in> set (Apply_calls cmd ctx)) =
           (a = t \<and> v = mGain cmd \<and> bHasGain cmd \<and> isWaveTrack (heap (project ctx) t))
       \<and> (Call_SetSelected a b \<in> set (Apply_calls cmd ctx)) =
           (a = t \<and> b = bSelected cmd \<and> bHasSelected cmd)
       \<and> (Call_SetFocusedTrack a \<in> set (Apply_calls cmd ctx)) =
           (a = t \<and> bHasFocused cmd)
       \<and> (Call_SetSolo a b \<in> set (Apply_calls cmd ctx)) =
           (a = t \<and> b = bSolo cmd \<and> bHasSolo cmd \<and> isPlayableTrack (heap (project ctx) t))
       \<and> (Call_SetMute a b \<in> set (Apply_calls cmd ctx)) =
           (a = t \<and> b = bMute cmd \<and> bHasMute cmd \<and> isPlayableTrack (heap (project ctx) t))"
proof -
  note c = Apply_calls_valid [OF assms]
  have 1: "(Call_SetName a n \<in> set (Apply_calls cmd ctx)) =
           (a = t \<and> n = mTrackName cmd \<and> bHasTrackName cmd)"
    unfolding c by auto
  have 2: "(Call_SetPan a v \<in> set (Apply_calls cmd ctx)) =
           (a = t \<and> v = mPan cmd \<and> bHasPan cmd \<and> isWaveTrack (heap (project ctx) t))"
    unfolding c by auto
  have 3: "(Call_SetGain a v \<in> set (Apply_calls cmd ctx)) =
           (a = t \<and> v = mGain cmd \<and> bHasGain cmd \<and> isWaveTrack (heap (project ctx) t))"
    unfolding c by auto
  have 4: "(Call_SetSelected a b \<in> set (Apply_calls cmd ctx)) =
           (a = t \<and> b = bSelected cmd \<and> bHasSelected cmd)"
    unfolding c by auto
  have 5: "(Call_SetFocusedTrack a \<in> set (Apply_calls cmd ctx)) = (a = t \<and> bHasFocused cmd)"
    unfolding c by auto
  have 6: "(Call_SetSolo a b \<in> set (Apply_calls cmd ctx)) =
           (a = t \<and> b = bSolo cmd \<and> bHasSolo cmd \<and> isPlayableTrack (heap (project ctx) t))"
    unfolding c by auto
  have 7: "(Call_SetMute a b \<in> set (Apply_calls cmd ctx)) =
           (a = t \<and> b = bMute cmd \<and> bHasMute cmd \<and> isPlayableTrack (heap (project ctx) t))"
    unfolding c by auto
  from 1 2 3 4 5 6 7 show ?thesis by blast
qed

theorem Apply_sets_present_fields_on_supporting_tracks_witness:
  "Call_SetPan 10 5 \<in> set (Apply_calls (demo_command 0 True) demo_context)
   \<and> Call_SetPan 20 5 \<notin> set (Apply_calls (demo_command 1 True) demo_context)
   \<and> Call_SetName 20 ''Lead'' \<in> set (Apply_calls (demo_command 1 True) demo_context)
   \<and> Call_SetSolo 30 True \<in> set (Apply_calls (demo_command 2 True) demo_context)
   \<and> Call_SetGain 30 (- 3) \<notin> set (Apply_calls (demo_command 2 True) demo_context)"
proof -
  have h0: "0 \<le> mTrackIndex (demo_command 0 True)"
      "mTrackIndex (demo_command 0 True) < int (length (tracks (project demo_context)))"
      "10 = tracks (project demo_context) ! nat (mTrackIndex (demo_command 0 True))"
    by (simp_all add: demo_defs)
  have h1: "0 \<le> mTrackIndex (demo_command 1 True)"
      "mTrackIndex (demo_command 1 True) < int (length (tracks (project demo_context)))"
      "20 = tracks (project demo_context) ! nat (mTrackIndex (demo_command 1 True))"
    by (simp_all add: demo_defs)
  have h2: "0 \<le> mTrackIndex (demo_command 2 True)"
      "mTrackIndex (demo_command 2 True) < int (length (tracks (project demo_context)))"
      "30 = tracks (project demo_context) ! nat (mTrackIndex (demo_command 2 True))"
    by (simp_all add: demo_defs numeral_2_eq_2)
  have vals: "mPan (demo_command i True) = 5" "mGain (demo_command i True) = - 3"
      "mTrackName (demo_command i True) = ''Lead''" "bSolo (demo_command i True)"
      "bHasPan (demo_command i True)" "bHasGain (demo_command i True)"
      "bHasTrackName (demo_command i True)" "bHasSolo (demo_command i True)"
      "isWaveTrack (heap (project demo_context) 10)"
      "\<not> isWaveTrack (heap (project demo_context) 20)"
      "\<not> isWaveTrack (heap (project demo_context) 30)"
      "isPlayableTrack (heap (project demo_context) 30)" for i
    by (simp_all add: demo_defs)
  have a: "Call_SetPan 10 5 \<in> set (Apply_calls (demo_command 0 True) demo_context)"
    using Apply_sets_present_fields_on_supporting_tracks [OF h0, of 10 _ 5]
    by (simp only: vals simp_thms)
  have b: "Call_SetPan 20 5 \<notin> set (Apply_calls (demo_command 1 True) demo_context)"
    using Apply_sets_present_fields_on_supporting_tracks [OF h1, of 20 _ 5]
    by (simp only: vals simp_thms)
  have c: "Call_SetName 20 ''Lead'' \<in> set (Apply_calls (demo_command 1 True) demo_context)"
    using Apply_sets_present_fields_on_supporting_tracks [OF h1, of 20 "''Lead''"]
    by (simp only: vals simp_thms)
  have d: "Call_SetSolo 30 True \<in> set (Apply_calls (demo_command 2 True) demo_context)"
    using Apply_sets_present_fields_on_supporting_tracks [OF h2, of 30 _ _ True]
    by (simp only: vals simp_thms)
  have e: "Call_SetGain 30 (- 3) \<notin> set (Apply_calls (demo_command 2 True) demo_context)"
    using Apply_sets_present_fields_on_supporting_tracks [OF h2, of 30 _ "- 3"]
    by (simp only: vals simp_thms)
  from a b c d e show ?thesis by blast
qed

text \<open>
  C3. When \<^verbatim>\<open>Apply\<close> fails, which it does only for an invalid track index, it has
  called no setter and has modified neither a track nor the project: the context it
  leaves differs from the one it found by the reported error alone. When it
  succeeds, it has made the call for every field that is present and supported by
  the located track, in the order of the source. So either all applicable fields
  are set or none is.
\<close>

theorem Apply_failure_modifies_nothing:
  "(\<not> fst (Apply cmd ctx) \<longrightarrow>
      project (snd (Apply cmd ctx)) = project ctx
      \<and> calls (snd (Apply cmd ctx)) = calls ctx
      \<and> Apply_calls cmd ctx = []
      \<and> snd (Apply cmd ctx) = ctx\<lparr>errors := errors ctx @ [''TrackIndex was invalid.'']\<rparr>
      \<and> \<not> (0 \<le> mTrackIndex cmd \<and> mTrackIndex cmd < int (length (tracks (project ctx)))))
   \<and> (fst (Apply cmd ctx) \<longrightarrow>
      0 \<le> mTrackIndex cmd \<and> mTrackIndex cmd < int (length (tracks (project ctx)))
      \<and> errors (snd (Apply cmd ctx)) = errors ctx
      \<and> Apply_calls cmd ctx =
          (if bHasTrackName cmd
           then [Call_SetName (tracks (project ctx) ! nat (mTrackIndex cmd)) (mTrackName cmd)]
           else []) @
          (if isWaveTrack (heap (project ctx) (tracks (project ctx) ! nat (mTrackIndex cmd)))
              \<and> bHasPan cmd
           then [Call_SetPan (tracks (project ctx) ! nat (mTrackIndex cmd)) (mPan cmd)]
           else []) @
          (if isWaveTrack (heap (project ctx) (tracks (project ctx) ! nat (mTrackIndex cmd)))
              \<and> bHasGain cmd
           then [Call_SetGain (tracks (project ctx) ! nat (mTrackIndex cmd)) (mGain cmd)]
           else []) @
          (if bHasSelected cmd
           then [Call_SetSelected (tracks (project ctx) ! nat (mTrackIndex cmd)) (bSelected cmd)]
           else []) @
          (if bHasFocused cmd
           then [Call_SetFocusedTrack (tracks (project ctx) ! nat (mTrackIndex cmd))]
           else []) @
          (if isPlayableTrack (heap (project ctx) (tracks (project ctx) ! nat (mTrackIndex cmd)))
              \<and> bHasSolo cmd
           then [Call_SetSolo (tracks (project ctx) ! nat (mTrackIndex cmd)) (bSolo cmd)]
           else []) @
          (if isPlayableTrack (heap (project ctx) (tracks (project ctx) ! nat (mTrackIndex cmd)))
              \<and> bHasMute cmd
           then [Call_SetMute (tracks (project ctx) ! nat (mTrackIndex cmd)) (bMute cmd)]
           else []))"
proof (cases "0 \<le> mTrackIndex cmd \<and> mTrackIndex cmd < int (length (tracks (project ctx)))")
  case True
  then have v: "0 \<le> mTrackIndex cmd" "mTrackIndex cmd < int (length (tracks (project ctx)))"
    by simp_all
  have ok: "fst (Apply cmd ctx)" and e: "errors (snd (Apply cmd ctx)) = errors ctx"
    by (simp_all add: Apply_valid [OF v] Apply_fields_rest)
  show ?thesis
    using True ok e Apply_calls_valid [OF v refl] by simp
next
  case False
  then have "Apply cmd ctx = (False, CommandContext_Error ''TrackIndex was invalid.'' ctx)"
    by (rule Apply_invalid)
  then show ?thesis
    using False by (simp add: Apply_calls_def CommandContext_Error_def)
qed

theorem Apply_failure_modifies_nothing_witness:
  "\<not> fst (Apply (demo_command 3 True) demo_context)
   \<and> project (snd (Apply (demo_command 3 True) demo_context)) = demo_project
   \<and> Apply_calls (demo_command 3 True) demo_context = []
   \<and> fst (Apply (demo_command 1 True) demo_context)
   \<and> Apply_calls (demo_command 1 True) demo_context =
       [Call_SetName 20 ''Lead'', Call_SetSelected 20 True, Call_SetFocusedTrack 20]"
proof -
  have failed: "\<not> fst (Apply (demo_command 3 True) demo_context)"
    by code_simp
  have ok: "fst (Apply (demo_command 1 True) demo_context)"
    by code_simp
  have a: "project (snd (Apply (demo_command 3 True) demo_context)) = demo_project"
      "Apply_calls (demo_command 3 True) demo_context = []"
    using failed Apply_failure_modifies_nothing [of "demo_command 3 True" demo_context]
    by (simp_all add: demo_context_def)
  have b: "Apply_calls (demo_command 1 True) demo_context =
       [Call_SetName 20 ''Lead'', Call_SetSelected 20 True, Call_SetFocusedTrack 20]"
    using ok Apply_failure_modifies_nothing [of "demo_command 1 True" demo_context]
    by (simp add: demo_defs)
  from failed ok a b show ?thesis by blast
qed

text \<open>
  C4. When a track exists at the configured index, a field whose presence flag is
  false is left alone: its setter is not called, on the located track or on any
  other, and the property keeps its prior value on every track (the focused track
  stays the one it was).
\<close>

theorem Apply_leaves_absent_fields_unchanged:
  assumes "0 \<le> mTrackIndex cmd" and "mTrackIndex cmd < int (length (tracks (project ctx)))"
  shows "(\<not> bHasTrackName cmd \<longrightarrow>
            Call_SetName a n \<notin> set (Apply_calls cmd ctx) \<and>
            trkName (heap (project (snd (Apply cmd ctx))) a) = trkName (heap (project ctx) a))
       \<and> (\<not> bHasPan cmd \<longrightarrow>
            Call_SetPan a v \<notin> set (Apply_calls cmd ctx) \<and>
            trkPan (heap (project (snd (Apply cmd ctx))) a) = trkPan (heap (project ctx) a))
       \<and> (\<not> bHasGain cmd \<longrightarrow>
            Call_SetGain a v \<notin> set (Apply_calls cmd ctx) \<and>
            trkGain (heap (project (snd (Apply cmd ctx))) a) = trkGain (heap (project ctx) a))
       \<and> (\<not> bHasSelected cmd \<longrightarrow>
            Call_SetSelected a b \<notin> set (Apply_calls cmd ctx) \<and>
            trkSelected (heap (project (snd (Apply cmd ctx))) a) =
              trkSelected (heap (project ctx) a))
       \<and> (\<not> bHasFocused cmd \<longrightarrow>
            Call_SetFocusedTrack a \<notin> set (Apply_calls cmd ctx) \<and>
            focusedTrack (project (snd (Apply cmd ctx))) = focusedTrack (project ctx))
       \<and> (\<not> bHasSolo cmd \<longrightarrow>
            Call_SetSolo a b \<notin> set (Apply_calls cmd ctx) \<and>
            trkSolo (heap (project (snd (Apply cmd ctx))) a) = trkSolo (heap (project ctx) a))
       \<and> (\<not> bHasMute cmd \<longrightarrow>
            Call_SetMute a b \<notin> set (Apply_calls cmd ctx) \<and>
            trkMute (heap (project (snd (Apply cmd ctx))) a) = trkMute (heap (project ctx) a))"
proof -
  note c = Apply_calls_valid [OF assms refl]
  note s = Apply_valid [OF assms] snd_conv Apply_fields_heap Apply_fields_rest
  have 1: "\<not> bHasTrackName cmd \<longrightarrow>
            Call_SetName a n \<notin> set (Apply_calls cmd ctx) \<and>
            trkName (heap (project (snd (Apply cmd ctx))) a) = trkName (heap (project ctx) a)"
    unfolding c s by auto
  have 2: "\<not> bHasPan cmd \<longrightarrow>
            Call_SetPan a v \<notin> set (Apply_calls cmd ctx) \<and>
            trkPan (heap (project (snd (Apply cmd ctx))) a) = trkPan (heap (project ctx) a)"
    unfolding c s by auto
  have 3: "\<not> bHasGain cmd \<longrightarrow>
            Call_SetGain a v \<notin> set (Apply_calls cmd ctx) \<and>
            trkGain (heap (project (snd (Apply cmd ctx))) a) = trkGain (heap (project ctx) a)"
    unfolding c s by auto
  have 4: "\<not> bHasSelected cmd \<longrightarrow>
            Call_SetSelected a b \<notin> set (Apply_calls cmd ctx) \<and>
            trkSelected (heap (project (snd (Apply cmd ctx))) a) =
              trkSelected (heap (project ctx) a)"
    unfolding c s by auto
  have 5: "\<not> bHasFocused cmd \<longrightarrow>
            Call_SetFocusedTrack a \<notin> set (Apply_calls cmd ctx) \<and>
            focusedTrack (project (snd (Apply cmd ctx))) = focusedTrack (project ctx)"
    unfolding c s by auto
  have 6: "\<not> bHasSolo cmd \<longrightarrow>
            Call_SetSolo a b \<notin> set (Apply_calls cmd ctx) \<and>
            trkSolo (heap (project (snd (Apply cmd ctx))) a) = trkSolo (heap (project ctx) a)"
    unfolding c s by auto
  have 7: "\<not> bHasMute cmd \<longrightarrow>
            Call_SetMute a b \<notin> set (Apply_calls cmd ctx) \<and>
            trkMute (heap (project (snd (Apply cmd ctx))) a) = trkMute (heap (project ctx) a)"
    unfolding c s by auto
  from 1 2 3 4 5 6 7 show ?thesis by blast
qed

theorem Apply_leaves_absent_fields_unchanged_witness:
  "Call_SetName 10 ''Lead'' \<notin> set (Apply_calls (demo_command 0 False) demo_context)
   \<and> trkName (heap (project (snd (Apply (demo_command 0 False) demo_context))) 10) =
       ''Audio Track''
   \<and> Call_SetPan 10 5 \<notin> set (Apply_calls (demo_command 0 False) demo_context)
   \<and> trkPan (heap (project (snd (Apply (demo_command 0 False) demo_context))) 10) = 0
   \<and> focusedTrack (project (snd (Apply (demo_command 0 False) demo_context))) = None"
  using Apply_leaves_absent_fields_unchanged
      [where cmd = "demo_command 0 False" and ctx = demo_context and a = 10
         and n = "''Lead''" and v = 5]
  by (simp add: demo_defs)

text \<open>
  C5. \<^verbatim>\<open>Apply\<close> locates the track by a linear scan in list order. Started on the first
  track with the counter at 0, the loop moves from the track of index \<open>j\<close> with the
  counter at \<open>j\<close> to the track of index \<open>j + 1\<close> with the counter at \<open>j + 1\<close>, for every
  \<open>j\<close> below the index sought, and for a list of length \<open>N\<close> and \<open>0 \<le> k < N\<close> it stops
  on the \<open>k\<close>-th track (0-based) with the counter at \<open>k\<close>.
\<close>

theorem Apply_loop_selects_kth_track:
  assumes "0 \<le> k" and "k < int (length l)"
  shows "(case TrackListIterator_First l of (t0, iter) \<Rightarrow> Apply_loop k t0 iter 0) =
           (Some (l ! nat k), k)
       \<and> TrackListIterator_First l = (Some (l ! 0), drop 1 l)
       \<and> (\<forall>j. j < nat k \<longrightarrow>
             Apply_loop k (Some (l ! j)) (drop (Suc j) l) (int j) =
             Apply_loop k (Some (l ! Suc j)) (drop (Suc (Suc j)) l) (int j + 1))"
proof -
  have 1: "(case TrackListIterator_First l of (t0, iter) \<Rightarrow> Apply_loop k t0 iter 0) =
           (Some (l ! nat k), k)"
    using assms by (simp add: Apply_locate)
  have 2: "TrackListIterator_First l = (Some (l ! 0), drop 1 l)"
    using assms by (cases l) (simp_all add: TrackListIterator_First_def)
  have 3: "Apply_loop k (Some (l ! j)) (drop (Suc j) l) (int j) =
           Apply_loop k (Some (l ! Suc j)) (drop (Suc (Suc j)) l) (int j + 1)"
    if "j < nat k" for j
  proof -
    from that assms have "Suc j < length l" and "int j \<noteq> k" by linarith+
    then have "drop (Suc j) l = l ! Suc j # drop (Suc (Suc j)) l"
      by (simp add: Cons_nth_drop_Suc)
    then show ?thesis
      using \<open>int j \<noteq> k\<close>
      by (subst Apply_loop.simps) (simp add: TrackListIterator_Next_def)
  qed
  from 1 2 3 show ?thesis by blast
qed

theorem Apply_loop_selects_kth_track_witness:
  "(case TrackListIterator_First [10, 20, 30] of (t0, iter) \<Rightarrow> Apply_loop 2 t0 iter 0) =
     (Some 30, 2)
   \<and> Apply_loop 2 (Some 10) [20, 30] 0 = Apply_loop 2 (Some 20) [30] 1"
proof -
  have h: "(0::int) \<le> 2" "(2::int) < int (length [10, 20, 30::nat])"
    by simp_all
  note kth = Apply_loop_selects_kth_track [OF h]
  from kth have final:
    "(case TrackListIterator_First [10, 20, 30] of (t0, iter) \<Rightarrow> Apply_loop 2 t0 iter 0) =
       (Some ([10, 20, 30] ! nat 2), 2)"
    by (rule conjunct1)
  from kth have "\<forall>j. j < nat 2 \<longrightarrow>
      Apply_loop 2 (Some ([10, 20, 30] ! j)) (drop (Suc j) [10, 20, 30]) (int j) =
      Apply_loop 2 (Some ([10, 20, 30] ! Suc j)) (drop (Suc (Suc j)) [10, 20, 30]) (int j + 1)"
    by blast
  then have "0 < nat 2 \<longrightarrow>
      Apply_loop 2 (Some ([10, 20, 30] ! 0)) (drop (Suc 0) [10, 20, 30]) (int 0) =
      Apply_loop 2 (Some ([10, 20, 30] ! Suc 0)) (drop (Suc (Suc 0)) [10, 20, 30]) (int 0 + 1)"
    by (rule spec)
  then have step: "Apply_loop 2 (Some 10) [20, 30] 0 = Apply_loop 2 (Some 20) [30] 1"
    by simp
  from final step show ?thesis by (simp add: numeral_2_eq_2)
qed

text \<open>
  C6. \<^verbatim>\<open>DefineParams\<close> returns true and registers eight parameters, in this order and
  under these names: "TrackIndex", "Name", "Pan", "Gain", "Selected", "Focuseed",
  "Solo", "Mute". The sixth name is spelt "Focuseed" in the source; no parameter is
  registered under the name "Focused".
\<close>

theorem DefineParams_registered_names:
  "fst (DefineParams S)
   \<and> map pKey (snd (DefineParams S)) =
       map pKey S @
       [''TrackIndex'', ''Name'', ''Pan'', ''Gain'', ''Selected'', ''Focuseed'', ''Solo'', ''Mute'']
   \<and> ''Focused'' \<notin> set (map pKey (snd (DefineParams [])))
   \<and> map pKey (snd (DefineParams [])) \<noteq>
       [''TrackIndex'', ''Name'', ''Pan'', ''Gain'', ''Selected'', ''Focused'', ''Solo'', ''Mute'']"
  by (simp add: DefineParams_def ShuttleParams_Define_def)

text \<open>
  C7. \<^verbatim>\<open>DefineParams\<close> declares exactly three ranges: 0 to 100 for the track index, -1
  to 1 for pan and 0 to 10 for gain. \<^verbatim>\<open>Apply\<close> checks none of them, but it does check
  that a track exists at the index. As stated for every value of \<^verbatim>\<open>mTrackIndex\<close> the
  claim fails: at the index -1, which is outside the declared range, \<^verbatim>\<open>Apply\<close> fails
  on a project whose first track is a wave track and calls neither \<^verbatim>\<open>SetPan\<close> nor
  \<^verbatim>\<open>SetGain\<close>, although both fields are present.
\<close>

theorem Apply_forwards_nothing_at_invalid_index:
  "mTrackIndex (demo_command (- 1) True) = - 1
   \<and> bHasPan (demo_command (- 1) True)
   \<and> bHasGain (demo_command (- 1) True)
   \<and> isWaveTrack (heap (project demo_context) 10)
   \<and> tracks (project demo_context) = [10, 20, 30]
   \<and> \<not> fst (Apply (demo_command (- 1) True) demo_context)
   \<and> Apply_calls (demo_command (- 1) True) demo_context = []
   \<and> Call_SetPan 10 (mPan (demo_command (- 1) True))
        \<notin> set (Apply_calls (demo_command (- 1) True) demo_context)
   \<and> Call_SetGain 10 (mGain (demo_command (- 1) True))
        \<notin> set (Apply_calls (demo_command (- 1) True) demo_context)"
proof -
  have d: "mTrackIndex (demo_command (- 1) True) = - 1" "bHasPan (demo_command (- 1) True)"
      "bHasGain (demo_command (- 1) True)" "isWaveTrack (heap (project demo_context) 10)"
      "tracks (project demo_context) = [10, 20, 30]"
    by (simp_all add: demo_defs)
  have f: "\<not> fst (Apply (demo_command (- 1) True) demo_context)"
    by code_simp
  have c: "Apply_calls (demo_command (- 1) True) demo_context = []"
    by code_simp
  from d f c show ?thesis by simp
qed

text \<open>
  C7, as amended. The declared ranges are as above and \<^verbatim>\<open>Apply\<close> checks none of them.
  Whatever the values of \<^verbatim>\<open>mPan\<close> and \<^verbatim>\<open>mGain\<close>, in the declared ranges or not, and
  for every \<^verbatim>\<open>mTrackIndex\<close> at which a track exists, be it above 100, \<^verbatim>\<open>Apply\<close>
  succeeds, \<^verbatim>\<open>SetPan\<close> and \<^verbatim>\<open>SetGain\<close> are called on the track at that very index
  when the field is present and the track is a wave track, and each such call
  receives \<^verbatim>\<open>mPan\<close> or \<^verbatim>\<open>mGain\<close> as it is. For an index at which no track exists
  \<^verbatim>\<open>Apply\<close> fails and calls no setter.
\<close>

theorem Apply_forwards_values_unchecked:
  assumes "t = tracks (project ctx) ! nat (mTrackIndex cmd)"
  shows "[(pKey d, pRange d). d \<leftarrow> snd (DefineParams []), pRange d \<noteq> None] =
           [(''TrackIndex'', Some (PInt 0, PInt 100)),
            (''Pan'', Some (PDouble (- 1), PDouble 1)),
            (''Gain'', Some (PDouble 0, PDouble 10))]
       \<and> (0 \<le> mTrackIndex cmd \<and> mTrackIndex cmd < int (length (tracks (project ctx))) \<longrightarrow>
            fst (Apply cmd ctx)
            \<and> (bHasPan cmd \<and> isWaveTrack (heap (project ctx) t) \<longrightarrow>
                 Call_SetPan t (mPan cmd) \<in> set (Apply_calls cmd ctx))
            \<and> (Call_SetPan a v \<in> set (Apply_calls cmd ctx) \<longrightarrow> a = t \<and> v = mPan cmd)
            \<and> (bHasGain cmd \<and> isWaveTrack (heap (project ctx) t) \<longrightarrow>
                 Call_SetGain t (mGain cmd) \<in> set (Apply_calls cmd ctx))
            \<and> (Call_SetGain a v \<in> set (Apply_calls cmd ctx) \<longrightarrow> a = t \<and> v = mGain cmd))
       \<and> (\<not> (0 \<le> mTrackIndex cmd \<and> mTrackIndex cmd < int (length (tracks (project ctx)))) \<longrightarrow>
            \<not> fst (Apply cmd ctx) \<and> Apply_calls cmd ctx = [])"
proof -
  have 1: "[(pKey d, pRange d). d \<leftarrow> snd (DefineParams []), pRange d \<noteq> None] =
           [(''TrackIndex'', Some (PInt 0, PInt 100)),
            (''Pan'', Some (PDouble (- 1), PDouble 1)),
            (''Gain'', Some (PDouble 0, PDouble 10))]"
    by (simp add: DefineParams_def ShuttleParams_Define_def)
  have 2: "fst (Apply cmd ctx)
            \<and> (bHasPan cmd \<and> isWaveTrack (heap (project ctx) t) \<longrightarrow>
                 Call_SetPan t (mPan cmd) \<in> set (Apply_calls cmd ctx))
            \<and> (Call_SetPan a v \<in> set (Apply_calls cmd ctx) \<longrightarrow> a = t \<and> v = mPan cmd)
            \<and> (bHasGain cmd \<and> isWaveTrack (heap (project ctx) t) \<longrightarrow>
                 Call_SetGain t (mGain cmd) \<in> set (Apply_calls cmd ctx))
            \<and> (Call_SetGain a v \<in> set (Apply_calls cmd ctx) \<longrightarrow> a = t \<and> v = mGain cmd)"
    if v: "0 \<le> mTrackIndex cmd" "mTrackIndex cmd < int (length (tracks (project ctx)))"
  proof -
    note c = Apply_calls_valid [OF v assms]
    have a: "fst (Apply cmd ctx)"
      by (simp add: Apply_valid [OF v])
    have b: "bHasPan cmd \<and> isWaveTrack (heap (project ctx) t) \<longrightarrow>
            Call_SetPan t (mPan cmd) \<in> set (Apply_calls cmd ctx)"
      unfolding c by auto
    have c': "Call_SetPan a v \<in> set (Apply_calls cmd ctx) \<longrightarrow> a = t \<and> v = mPan cmd"
      unfolding c by auto
    have d: "bHasGain cmd \<and> isWaveTrack (heap (project ctx) t) \<longrightarrow>
            Call_SetGain t (mGain cmd) \<in> set (Apply_calls cmd ctx)"
      unfolding c by auto
    have e: "Call_SetGain a v \<in> set (Apply_calls cmd ctx) \<longrightarrow> a = t \<and> v = mGain cmd"
      unfolding c by auto
    from a b c' d e show ?thesis by blast
  qed
  have 3: "\<not> fst (Apply cmd ctx) \<and> Apply_calls cmd ctx = []"
    if "\<not> (0 \<le> mTrackIndex cmd \<and> mTrackIndex cmd < int (length (tracks (project ctx))))"
    using that by (simp add: Apply_invalid Apply_calls_invalid)
  from 1 2 3 show ?thesis by blast
qed

theorem Apply_forwards_values_unchecked_witness:
  "fst (Apply (demo_command 101 True) demo_long_context)
   \<and> Call_SetPan 10 5 \<in> set (Apply_calls (demo_command 101 True) demo_long_context)
   \<and> Call_SetGain 10 (- 3) \<in> set (Apply_calls (demo_command 101 True) demo_long_context)
   \<and> \<not> fst (Apply (demo_command 102 True) demo_long_context)
   \<and> Apply_calls (demo_command 102 True) demo_long_context = []"
proof -
  have h: "10 = tracks (project demo_long_context) ! nat (mTrackIndex (demo_command 101 True))"
      "0 \<le> mTrackIndex (demo_command 101 True) \<and>
       mTrackIndex (demo_command 101 True) < int (length (tracks (project demo_long_context)))"
    by (simp_all add: demo_long_context_def demo_command_def)
  have g: "\<not> (0 \<le> mTrackIndex (demo_command 102 True) \<and>
       mTrackIndex (demo_command 102 True) < int (length (tracks (project demo_long_context))))"
    by (simp add: demo_long_context_def demo_command_def)
  have vals: "mPan (demo_command 101 True) = 5" "mGain (demo_command 101 True) = - 3"
      "bHasPan (demo_command 101 True)" "bHasGain (demo_command 101 True)"
      "isWaveTrack (heap (project demo_long_context) 10)"
    by (simp_all add: demo_long_context_def demo_command_def demo_track_def)
  have a: "fst (Apply (demo_command 101 True) demo_long_context)
      \<and> Call_SetPan 10 5 \<in> set (Apply_calls (demo_command 101 True) demo_long_context)
      \<and> Call_SetGain 10 (- 3) \<in> set (Apply_calls (demo_command 101 True) demo_long_context)"
    using Apply_forwards_values_unchecked [OF h(1)] h(2) by (simp only: vals simp_thms)
  have b: "\<not> fst (Apply (demo_command 102 True) demo_long_context)
      \<and> Apply_calls (demo_command 102 True) demo_long_context = []"
    using Apply_forwards_values_unchecked [OF refl, of "demo_command 102 True" demo_long_context] g
    by blast
  from a b show ?thesis by blast
qed

text \<open>
  C8. The constructor gives each of the eight value members its initial value and
  leaves the seven presence flags as the object's storage held them. On a freshly
  constructed command the setters \<^verbatim>\<open>Apply\<close> calls are therefore decided by those
  unassigned flags: on a project with a first track, the calls are the ones the
  prior content of the storage selects, with the constructor's values as arguments.
\<close>

theorem ctor_assigns_no_presence_flag:
  assumes "tracks (project ctx) = t # rest"
  shows "mTrackIndex (SetTrackInfoCommand_ctor raw) = 0
       \<and> mTrackName (SetTrackInfoCommand_ctor raw) = ''unnamed''
       \<and> mPan (SetTrackInfoCommand_ctor raw) = 0
       \<and> mGain (SetTrackInfoCommand_ctor raw) = 1
       \<and> \<not> bSelected (SetTrackInfoCommand_ctor raw)
       \<and> \<not> bFocused (SetTrackInfoCommand_ctor raw)
       \<and> \<not> bSolo (SetTrackInfoCommand_ctor raw)
       \<and> \<not> bMute (SetTrackInfoCommand_ctor raw)
       \<and> bHasTrackName (SetTrackInfoCommand_ctor raw) = bHasTrackName raw
       \<and> bHasPan (SetTrackInfoCommand_ctor raw) = bHasPan raw
       \<and> bHasGain (SetTrackInfoCommand_ctor raw) = bHasGain raw
       \<and> bHasSelected (SetTrackInfoCommand_ctor raw) = bHasSelected raw
       \<and> bHasFocused (SetTrackInfoCommand_ctor raw) = bHasFocused raw
       \<and> bHasSolo (SetTrackInfoCommand_ctor raw) = bHasSolo raw
       \<and> bHasMute (SetTrackInfoCommand_ctor raw) = bHasMute raw
       \<and> Apply_calls (SetTrackInfoCommand_ctor raw) ctx =
           (if bHasTrackName raw then [Call_SetName t ''unnamed''] else []) @
           (if isWaveTrack (heap (project ctx) t) \<and> bHasPan raw then [Call_SetPan t 0] else []) @
           (if isWaveTrack (heap (project ctx) t) \<and> bHasGain raw then [Call_SetGain t 1] else []) @
           (if bHasSelected raw then [Call_SetSelected t False] else []) @
           (if bHasFocused raw then [Call_SetFocusedTrack t] else []) @
           (if isPlayableTrack (heap (project ctx) t) \<and> bHasSolo raw
            then [Call_SetSolo t False] else []) @
           (if isPlayableTrack (heap (project ctx) t) \<and> bHasMute raw
            then [Call_SetMute t False] else [])"
proof -
  have v: "mTrackIndex (SetTrackInfoCommand_ctor raw) = 0"
      "mTrackName (SetTrackInfoCommand_ctor raw) = ''unnamed''"
      "mPan (SetTrackInfoCommand_ctor raw) = 0"
      "mGain (SetTrackInfoCommand_ctor raw) = 1"
      "bSelected (SetTrackInfoCommand_ctor raw) = False"
      "bFocused (SetTrackInfoCommand_ctor raw) = False"
      "bSolo (SetTrackInfoCommand_ctor raw) = False"
      "bMute (SetTrackInfoCommand_ctor raw) = False"
    by (simp_all add: SetTrackInfoCommand_ctor_def)
  have f: "bHasTrackName (SetTrackInfoCommand_ctor raw) = bHasTrackName raw"
      "bHasPan (SetTrackInfoCommand_ctor raw) = bHasPan raw"
      "bHasGain (SetTrackInfoCommand_ctor raw) = bHasGain raw"
      "bHasSelected (SetTrackInfoCommand_ctor raw) = bHasSelected raw"
      "bHasFocused (SetTrackInfoCommand_ctor raw) = bHasFocused raw"
      "bHasSolo (SetTrackInfoCommand_ctor raw) = bHasSolo raw"
      "bHasMute (SetTrackInfoCommand_ctor raw) = bHasMute raw"
    by (simp_all add: SetTrackInfoCommand_ctor_def)
  have h: "0 \<le> mTrackIndex (SetTrackInfoCommand_ctor raw)"
      "mTrackIndex (SetTrackInfoCommand_ctor raw) < int (length (tracks (project ctx)))"
      "t = tracks (project ctx) ! nat (mTrackIndex (SetTrackInfoCommand_ctor raw))"
    using assms by (simp_all add: v)
  show ?thesis
    unfolding Apply_calls_valid [OF h] v f by simp
qed

theorem ctor_assigns_no_presence_flag_witness:
  "Apply_calls (SetTrackInfoCommand_ctor (demo_command 7 True)) demo_context =
     [Call_SetName 10 ''unnamed'', Call_SetPan 10 0, Call_SetGain 10 1,
      Call_SetSelected 10 False, Call_SetFocusedTrack 10, Call_SetSolo 10 False,
      Call_SetMute 10 False]
   \<and> Apply_calls (SetTrackInfoCommand_ctor (demo_command 7 False)) demo_context = []"
proof -
  have h: "tracks (project demo_context) = 10 # [20, 30]"
    by (simp add: demo_defs)
  have vals: "bHasTrackName (demo_command 7 p) = p" "bHasPan (demo_command 7 p) = p"
      "bHasGain (demo_command 7 p) = p" "bHasSelected (demo_command 7 p) = p"
      "bHasFocused (demo_command 7 p) = p" "bHasSolo (demo_command 7 p) = p"
      "bHasMute (demo_command 7 p) = p"
      "isWaveTrack (heap (project demo_context) 10)"
      "isPlayableTrack (heap (project demo_context) 10)" for p
    by (simp_all add: demo_defs)
  show ?thesis
    using ctor_assigns_no_presence_flag [OF h, of "demo_command 7 True"]
      ctor_assigns_no_presence_flag [OF h, of "demo_command 7 False"]
    by (simp add: vals)
qed

section \<open>The claims about MemoryX.h\<close>

lemma std_find_le: "std_find r t \<le> length r"
  by (induction r) simp_all

lemma std_find_end_iff: "(std_find r t = length r) = (t \<notin> set r)"
proof (induction r)
  case Nil
  show ?case by simp
next
  case (Cons x xs)
  then show ?case using std_find_le [of xs t] by auto
qed

lemma std_find_nth: "t \<in> set r \<Longrightarrow> r ! std_find r t = t"
  by (induction r) auto

lemma std_find_first: "j < std_find r t \<Longrightarrow> r ! j \<noteq> t"
proof (induction r arbitrary: j)
  case Nil
  then show ?case by simp
next
  case (Cons x xs)
  then show ?case by (cases j) (auto split: if_splits)
qed

text \<open>
  C9. On every range the three membership operations agree: \<^verbatim>\<open>contains(t)\<close> holds
  exactly when \<^verbatim>\<open>find(t)\<close> is not \<^verbatim>\<open>end()\<close>, exactly when \<^verbatim>\<open>index(t)\<close> is at least 0, and
  exactly when \<open>t\<close> occurs in the range. \<^verbatim>\<open>index(t)\<close> is -1 exactly when \<open>t\<close> does not
  occur; when it occurs, \<^verbatim>\<open>index(t)\<close> is the offset from \<^verbatim>\<open>begin()\<close> of its first
  occurrence: the element at that offset is \<open>t\<close> and no element before it is.
\<close>

theorem IteratorRange_membership_agree:
  "(IteratorRange_contains r t = (IteratorRange_find r t \<noteq> IteratorRange_end r))
   \<and> (IteratorRange_contains r t = (0 \<le> IteratorRange_index r t))
   \<and> (IteratorRange_contains r t = (t \<in> set r))
   \<and> ((IteratorRange_index r t = - 1) = (t \<notin> set r))
   \<and> (t \<in> set r \<longrightarrow>
        0 \<le> IteratorRange_index r t \<and>
        IteratorRange_index r t = int (IteratorRange_find r t) - int (IteratorRange_begin r) \<and>
        nat (IteratorRange_index r t) < length r \<and>
        r ! nat (IteratorRange_index r t) = t \<and>
        (\<forall>j. j < nat (IteratorRange_index r t) \<longrightarrow> r ! j \<noteq> t))"
proof (cases "t \<in> set r")
  case True
  then have ne: "std_find r t \<noteq> length r" by (simp add: std_find_end_iff)
  then have idx: "IteratorRange_index r t = int (std_find r t)"
    by (simp add: IteratorRange_index_def IteratorRange_find_def IteratorRange_end_def
        IteratorRange_begin_def std_distance_def)
  have lt: "std_find r t < length r"
    using ne std_find_le [of r t] by linarith
  have "\<forall>j. j < std_find r t \<longrightarrow> r ! j \<noteq> t"
    by (simp add: std_find_first)
  then show ?thesis
    using True ne lt idx std_find_nth [OF True]
    by (simp add: IteratorRange_contains_def IteratorRange_find_def IteratorRange_end_def
        IteratorRange_begin_def)
next
  case False
  then have e: "std_find r t = length r" by (simp add: std_find_end_iff)
  then show ?thesis
    using False
    by (simp add: IteratorRange_contains_def IteratorRange_index_def IteratorRange_find_def
        IteratorRange_end_def)
qed

theorem IteratorRange_membership_agree_witness:
  "IteratorRange_contains [3, 1, 4, 1, 5::nat] 1
   \<and> IteratorRange_find [3, 1, 4, 1, 5::nat] 1 \<noteq> IteratorRange_end [3, 1, 4, 1, 5::nat]
   \<and> 0 \<le> IteratorRange_index [3, 1, 4, 1, 5::nat] 1
   \<and> [3, 1, 4, 1, 5::nat] ! nat (IteratorRange_index [3, 1, 4, 1, 5::nat] 1) = 1
   \<and> \<not> IteratorRange_contains [3, 1, 4, 1, 5::nat] 2
   \<and> IteratorRange_index [3, 1, 4, 1, 5::nat] 2 = - 1"
proof -
  have m1: "(1::nat) \<in> set [3, 1, 4, 1, 5]" by simp
  have m2: "(2::nat) \<notin> set [3, 1, 4, 1, 5]" by simp
  from m1 IteratorRange_membership_agree [of "[3, 1, 4, 1, 5::nat]" 1]
  have a: "IteratorRange_contains [3, 1, 4, 1, 5::nat] 1"
      "IteratorRange_find [3, 1, 4, 1, 5::nat] 1 \<noteq> IteratorRange_end [3, 1, 4, 1, 5::nat]"
      "0 \<le> IteratorRange_index [3, 1, 4, 1, 5::nat] 1"
      "[3, 1, 4, 1, 5::nat] ! nat (IteratorRange_index [3, 1, 4, 1, 5::nat] 1) = 1"
    by blast+
  from m2 IteratorRange_membership_agree [of "[3, 1, 4, 1, 5::nat]" 2]
  have b: "\<not> IteratorRange_contains [3, 1, 4, 1, 5::nat] 2"
      "IteratorRange_index [3, 1, 4, 1, 5::nat] 2 = - 1"
    by blast+
  from a b show ?thesis by blast
qed

text \<open>
  C10. After \<^verbatim>\<open>reset()\<close> a \<^verbatim>\<open>Maybe\<close> is empty: \<^verbatim>\<open>get()\<close> is the null pointer and the
  conversion to \<^verbatim>\<open>bool\<close> is false. A second \<^verbatim>\<open>reset()\<close> changes nothing, in particular
  it destroys no object again. The destructor is \<^verbatim>\<open>reset()\<close>: it leaves the object
  empty, having destroyed the held object, if there was one, exactly once.
\<close>

theorem Maybe_reset_empties:
  "Maybe_get (Maybe_reset m) = None
   \<and> \<not> Maybe_bool (Maybe_reset m)
   \<and> Maybe_reset (Maybe_reset m) = Maybe_reset m
   \<and> destroyed (Maybe_reset m) = destroyed m @ (case pp m of None \<Rightarrow> [] | Some x \<Rightarrow> [x])
   \<and> Maybe_get (Maybe_dtor m) = None
   \<and> \<not> Maybe_bool (Maybe_dtor m)
   \<and> Maybe_dtor m = Maybe_reset m
   \<and> Maybe_dtor (Maybe_reset m) = Maybe_reset m
   \<and> destroyed (Maybe_dtor m) = destroyed m @ (case pp m of None \<Rightarrow> [] | Some x \<Rightarrow> [x])"
  by (cases "pp m") (simp_all add: Maybe_reset_def Maybe_get_def Maybe_bool_def Maybe_dtor_def)

end
